theory Spec2Isabelle
  imports Main
begin

section \<open>Python strings\<close>

text \<open>
  A Python \<open>str\<close> is modelled as a \<open>string\<close>, each \<open>char\<close> standing for one code
  point below 256. On that range the character classes of the interpreter are finite
  tables, written out below: \<open>str.isspace\<close>, \<open>str.lower\<close>, and the classes \<open>\d\<close> and
  \<open>[A-Z]\<close> of the \<open>re\<close> module.
\<close>

definition code_point :: "char \<Rightarrow> nat" where
  "code_point c = of_char c"

text \<open>\<open>str.isspace\<close> on one character: TAB..CR, FS..US, SPACE, NEL and NBSP.\<close>

definition isspace :: "char \<Rightarrow> bool" where
  "isspace c =
     (let n = code_point c
      in (9 \<le> n \<and> n \<le> 13) \<or> (28 \<le> n \<and> n \<le> 32) \<or> n = 133 \<or> n = 160)"

text \<open>\<open>s.strip()\<close>: leading and trailing whitespace removed.\<close>

definition str_strip :: "string \<Rightarrow> string" where
  "str_strip s = rev (dropWhile isspace (rev (dropWhile isspace s)))"

text \<open>The regular expression classes \<open>[A-Z]\<close> and \<open>\d\<close>.\<close>

definition is_AZ :: "char \<Rightarrow> bool" where
  "is_AZ c = (let n = code_point c in 65 \<le> n \<and> n \<le> 90)"

definition is_digit :: "char \<Rightarrow> bool" where
  "is_digit c = (let n = code_point c in 48 \<le> n \<and> n \<le> 57)"

text \<open>
  \<open>str.lower\<close>: the upper-case letters below 256 are \<open>A..Z\<close> and \<open>U+00C0..U+00DE\<close>
  without the multiplication sign \<open>U+00D7\<close>; each lower-case partner is 32 code points
  higher, which is bit 5 of the character.
\<close>

definition is_upper :: "char \<Rightarrow> bool" where
  "is_upper c =
     (let n = code_point c
      in (65 \<le> n \<and> n \<le> 90) \<or> (192 \<le> n \<and> n \<le> 222 \<and> n \<noteq> 215))"

definition lower_char :: "char \<Rightarrow> char" where
  "lower_char c =
     (if is_upper c
      then (case c of Char b0 b1 b2 b3 b4 b5 b6 b7 \<Rightarrow> Char b0 b1 b2 b3 b4 True b6 b7)
      else c)"

definition str_lower :: "string \<Rightarrow> string" where
  "str_lower s = map lower_char s"

text \<open>\<open>s.startswith(p)\<close>.\<close>

fun str_startswith :: "string \<Rightarrow> string \<Rightarrow> bool" where
  "str_startswith s [] = True"
| "str_startswith [] (p # ps) = False"
| "str_startswith (c # cs) (p # ps) = (c = p \<and> str_startswith cs ps)"

text \<open>All suffixes of a string, the longest first: the places a search can start at.\<close>

fun tails :: "string \<Rightarrow> string list" where
  "tails [] = [[]]"
| "tails (c # cs) = (c # cs) # tails cs"

text \<open>\<open>w in s\<close> on strings: \<open>w\<close> occurs in \<open>s\<close> as a substring.\<close>

definition str_contains :: "string \<Rightarrow> string \<Rightarrow> bool" where
  "str_contains w s = list_ex (\<lambda>t. str_startswith t w) (tails s)"

text \<open>\<open>s.count(c)\<close> for a one-character string \<open>c\<close>.\<close>

definition str_count :: "string \<Rightarrow> char \<Rightarrow> nat" where
  "str_count s c = length (filter (\<lambda>x. x = c) s)"

text \<open>\<open>sep.join(xs)\<close>.\<close>

fun str_join :: "string \<Rightarrow> string list \<Rightarrow> string" where
  "str_join sep [] = []"
| "str_join sep [x] = x"
| "str_join sep (x # y # ys) = x @ sep @ str_join sep (y # ys)"

text \<open>The decimal numeral of a natural number, as an f-string prints an \<open>int\<close>.\<close>

fun str_of_nat :: "nat \<Rightarrow> string" where
  "str_of_nat n =
     (if n < 10 then [''0123456789'' ! n]
      else str_of_nat (n div 10) @ [''0123456789'' ! (n mod 10)])"

declare str_of_nat.simps [simp del]

subsection \<open>Regular expressions\<close>

text \<open>
  The two patterns of the source use literals, an optional item, and a character class
  repeated at least \<open>n\<close> times. \<open>rests r s\<close> lists what remains of \<open>s\<close> after each way
  \<open>r\<close> can match a prefix of it, so that \<open>re.search\<close> succeeds when some suffix of the
  subject has a match.
\<close>

datatype regex =
    Lit string
  | Opt regex
  | Rep nat "char \<Rightarrow> bool"
  | Seq regex regex

fun rests :: "regex \<Rightarrow> string \<Rightarrow> string list" where
  "rests (Lit p) s = (if str_startswith s p then [drop (length p) s] else [])"
| "rests (Opt r) s = rests r s @ [s]"
| "rests (Rep n p) s = map (\<lambda>i. drop i s) (rev [n ..< Suc (length (takeWhile p s))])"
| "rests (Seq a b) s = concat (map (rests b) (rests a s))"

definition re_search :: "regex \<Rightarrow> string \<Rightarrow> bool" where
  "re_search r s = list_ex (\<lambda>t. rests r t \<noteq> []) (tails s)"

text \<open>\<open>[A-Z]{6,}\<close>\<close>

definition caps_re :: regex where
  "caps_re = Rep 6 is_AZ"

text \<open>\<open>https?://\d+\.\d+\.\d+\.\d+\<close>\<close>

definition ip_re :: regex where
  "ip_re =
     Seq (Lit ''http'') (Seq (Opt (Lit ''s'')) (Seq (Lit ''://'')
       (Seq (Rep 1 is_digit) (Seq (Lit ''.'')
       (Seq (Rep 1 is_digit) (Seq (Lit ''.'')
       (Seq (Rep 1 is_digit) (Seq (Lit ''.'')
       (Rep 1 is_digit)))))))))"

section \<open>Values and verdicts\<close>

text \<open>
  The values a Python dictionary built by the analyzer or decoded from JSON can hold.
  A finite float \<open>Finite m e\<close> is the dyadic number \<open>m * 2 ^ e\<close>.
\<close>

datatype pyfloat = Finite int int | PosInf | NegInf | NaN

datatype pyval =
    PNone
  | PBool bool
  | PInt int
  | PFloat pyfloat
  | PStr string
  | PList "pyval list"
  | PDict "(string \<times> pyval) list"

text \<open>
  The dictionary both \<open>heuristics_analyze\<close> and \<open>call_llm_to_refine\<close> return, with its
  four keys as fields. The score is an \<open>int\<close> on every path; the other three can be
  whatever the remote model's JSON held.
\<close>

record verdict =
  risk_level :: pyval
  score :: int
  reasons :: "pyval list"
  suspicious_links :: "pyval list"

text \<open>
  The two libraries the heuristics call: \<open>URLExtract().find_urls\<close> and
  \<open>tldextract.extract\<close>, whose result has the attributes \<open>subdomain\<close>, \<open>domain\<close> and
  \<open>suffix\<close>. They are not part of the repository and are parameters of the model.
\<close>

record extract_result =
  subdomain :: string
  domain :: string
  suffix :: string

record libs =
  find_urls :: "string \<Rightarrow> string list"
  tld_extract :: "string \<Rightarrow> extract_result"

section \<open>The heuristic analyzer\<close>

definition urgent :: "string list" where
  "urgent = [''urgent'', ''verify'', ''verify your'', ''immediately'', ''suspend'',
     ''suspended'', ''act now'', ''click below'', ''deadline'',
     ''your account has been suspended'']"

definition sensitive :: "string list" where
  "sensitive = [''password'', ''credit card'', ''ssn'', ''social security'',
     ''account number'', ''acct number'', ''routing number'', ''bank number'', ''login'',
     ''verify identity'']"

definition shorteners :: "string list" where
  "shorteners = [''bit.ly'', ''tinyurl.com'', ''t.co'', ''goo.gl'', ''tiny.cc'']"

text \<open>
  The em dash of the link summary is outside the 8-bit character type; it is written
  as the three bytes of its UTF-8 encoding.
\<close>

definition em_dash :: string where
  "em_dash = [CHR 0xE2, CHR 0x80, CHR 0x94]"

text \<open>
  Each block of checks updates the pair of the reasons collected so far and the running
  score. First the urgency keywords, matched in the lower-cased text.
\<close>

definition urgency_check :: "string \<Rightarrow> string list \<times> int \<Rightarrow> string list \<times> int" where
  "urgency_check t_low st =
     (let (reasons, score) = st;
          found_urgent = filter (\<lambda>w. str_contains w t_low) urgent
      in if found_urgent \<noteq> []
         then (reasons @ [''Urgency language: '' @ str_join '', '' (take 5 found_urgent)],
               score + 28)
         else (reasons, score))"

text \<open>Requests for credentials or other sensitive information.\<close>

definition sensitive_check :: "string \<Rightarrow> string list \<times> int \<Rightarrow> string list \<times> int" where
  "sensitive_check t_low st =
     (let (reasons, score) = st;
          found_sensitive = filter (\<lambda>w. str_contains w t_low) sensitive
      in if found_sensitive \<noteq> []
         then (reasons @
                 [''Requests sensitive info: '' @ str_join '', '' (take 5 found_sensitive)],
               score + 30)
         else (reasons, score))"

text \<open>Excessive punctuation and words in capitals, on the stripped text.\<close>

definition format_check :: "string \<Rightarrow> string list \<times> int \<Rightarrow> string list \<times> int" where
  "format_check t st =
     (let (reasons, score) = st;
          exclam = str_count t (CHR ''!'');
          (reasons, score) =
            (if exclam \<ge> 2
             then (reasons @ [''Contains '' @ str_of_nat exclam @ '' exclamation mark(s)''],
                   score + 6)
             else (reasons, score))
      in if re_search caps_re t
         then (reasons @ [''Contains long ALL-CAPS word(s)''], score + 5)
         else (reasons, score))"

text \<open>
  The body of the loop over the extracted URLs: the state is the running score and the
  list \<open>suspicious_links\<close>. \<open>problem\<close> is \<open>None\<close> or a string; a string counts as true
  when it is not empty.
\<close>

definition normalize_url :: "string \<Rightarrow> string" where
  "normalize_url u = (if str_startswith u ''http'' then u else ''http://'' @ u)"

definition registered_domain :: "libs \<Rightarrow> string \<Rightarrow> string" where
  "registered_domain L u_norm =
     (let ext = tld_extract L u_norm
      in if suffix ext \<noteq> [] then domain ext @ ''.'' @ suffix ext else domain ext)"

definition add_problem :: "string option \<Rightarrow> string \<Rightarrow> string option" where
  "add_problem problem name =
     (case problem of
        None \<Rightarrow> Some name
      | Some p \<Rightarrow> if p \<noteq> [] then Some (p @ ''; '' @ name) else Some name)"

definition inspect_url :: "libs \<Rightarrow> string \<Rightarrow> int \<times> pyval list \<Rightarrow> int \<times> pyval list" where
  "inspect_url L u st =
     (let (score, suspicious_links) = st;
          u_norm = normalize_url u;
          domain = registered_domain L u_norm;
          problem = None;
          (problem, score) =
            (if re_search ip_re u_norm
             then (Some ''IP address used in URL'', score + 20)
             else (problem, score));
          (problem, score) =
            (if list_ex (\<lambda>s. str_contains s u_norm) shorteners
             then (add_problem problem ''shortened URL'', score + 12)
             else (problem, score));
          (problem, score) =
            (if domain \<noteq> [] \<and> str_count domain (CHR ''-'') \<ge> 2
             then (add_problem problem ''suspicious domain pattern'', score + 6)
             else (problem, score))
      in (score,
          suspicious_links @
            [PDict [(''url'', PStr u), (''domain'', PStr domain),
                    (''problem'', case problem of None \<Rightarrow> PNone | Some p \<Rightarrow> PStr p)]]))"

fun inspect_urls :: "libs \<Rightarrow> string list \<Rightarrow> int \<times> pyval list \<Rightarrow> int \<times> pyval list" where
  "inspect_urls L [] st = st"
| "inspect_urls L (u # urls) st = inspect_urls L urls (inspect_url L u st)"

definition label_of :: "int \<Rightarrow> string" where
  "label_of n =
     (if n \<ge> 60 then ''Dangerous''
      else if n \<ge> 30 then ''Suspicious''
      else ''Safe'')"

definition heuristics_analyze :: "libs \<Rightarrow> string \<Rightarrow> verdict" where
  "heuristics_analyze L text =
     (if text = []
      then \<lparr>risk_level = PStr ''Safe'', score = 0, reasons = [PStr ''Empty message''],
            suspicious_links = []\<rparr>
      else
        let t = str_strip text;
            t_low = str_lower t;
            (reasons, score) = ([], 0);
            (reasons, score) = urgency_check t_low (reasons, score);
            (reasons, score) = sensitive_check t_low (reasons, score);
            (reasons, score) = format_check t (reasons, score);
            urls = find_urls L t;
            (score, suspicious_links) = inspect_urls L urls (score, []);
            reasons =
              (if suspicious_links \<noteq> []
               then reasons @
                      [''Found '' @ str_of_nat (length suspicious_links) @ '' link(s) '' @
                       em_dash @ '' inspect domains'']
               else reasons);
            reasons =
              (if reasons = [] then reasons @ [''No strong heuristic flags found'']
               else reasons);
            score = max 0 (min 100 score);
            label = label_of score
        in \<lparr>risk_level = PStr label, score = score, reasons = map PStr reasons,
            suspicious_links = suspicious_links\<rparr>)"

section \<open>The refinement adapter\<close>

subsection \<open>Built-in conversions\<close>

text \<open>
  The exceptions \<open>call_llm_to_refine\<close> can meet. Every one of them is a subclass of
  \<open>Exception\<close>; \<open>LibraryError\<close> stands for whatever the client library or the network
  raises.
\<close>

datatype exn =
  ValueError | TypeError | OverflowError | AttributeError | RecursionError | LibraryError

text \<open>\<open>s.find(sub)\<close> and \<open>s.rfind(sub)\<close>: the first and the last index, or \<open>-1\<close>.\<close>

fun find_from :: "nat \<Rightarrow> string \<Rightarrow> string \<Rightarrow> int" where
  "find_from i sub [] = (if sub = [] then int i else - 1)"
| "find_from i sub (c # cs) =
     (if str_startswith (c # cs) sub then int i else find_from (Suc i) sub cs)"

definition str_find :: "string \<Rightarrow> string \<Rightarrow> int" where
  "str_find s sub = find_from 0 sub s"

fun rfind_from :: "nat \<Rightarrow> string \<Rightarrow> string \<Rightarrow> int" where
  "rfind_from i sub [] = (if sub = [] then int i else - 1)"
| "rfind_from i sub (c # cs) =
     (let r = rfind_from (Suc i) sub cs
      in if r \<noteq> - 1 then r
         else if str_startswith (c # cs) sub then int i
         else - 1)"

definition str_rfind :: "string \<Rightarrow> string \<Rightarrow> int" where
  "str_rfind s sub = rfind_from 0 sub s"

text \<open>The slice \<open>s[a:b]\<close> for indices that are not negative.\<close>

definition str_slice :: "string \<Rightarrow> int \<Rightarrow> int \<Rightarrow> string" where
  "str_slice s a b = take (nat b - nat a) (drop (nat a) s)"

text \<open>
  The interpreter's bound on the decimal digits of an integer converted from or to a
  string, at its default.
\<close>

definition int_max_str_digits :: nat where
  "int_max_str_digits = 4300"

text \<open>
  \<open>int(s)\<close> on a string. The whitespace dropped at both ends is TAB..CR, SPACE, NEL and
  NBSP: the separators FS..US, which \<open>str.strip\<close> removes, are not among it. A sign may
  come first, and the decimal digits may be grouped by single underscores. More than
  \<open>int_max_str_digits\<close> digits, leading zeros counted, raise.
\<close>

definition int_space :: "char \<Rightarrow> bool" where
  "int_space c =
     (let n = code_point c in (9 \<le> n \<and> n \<le> 13) \<or> n = 32 \<or> n = 133 \<or> n = 160)"

fun well_grouped :: "string \<Rightarrow> bool" where
  "well_grouped [] = False"
| "well_grouped [c] = is_digit c"
| "well_grouped (c # d # cs) =
     (is_digit c \<and> (if d = CHR ''_'' then well_grouped cs else well_grouped (d # cs)))"

definition digits_value :: "string \<Rightarrow> nat" where
  "digits_value ds = foldl (\<lambda>n c. 10 * n + (code_point c - 48)) 0 (filter is_digit ds)"

definition int_of_str :: "string \<Rightarrow> int option" where
  "int_of_str s =
     (let t = rev (dropWhile int_space (rev (dropWhile int_space s)));
          (neg, body) =
            (case t of
               [] \<Rightarrow> (False, [])
             | c # r \<Rightarrow>
                 if c = CHR ''-'' then (True, r)
                 else if c = CHR ''+'' then (False, r)
                 else (False, t))
      in if well_grouped body \<and> length (filter is_digit body) \<le> int_max_str_digits
         then Some (if neg then - int (digits_value body) else int (digits_value body))
         else None)"

text \<open>\<open>int(x)\<close> on a float: truncation towards zero; infinities and NaN raise.\<close>

definition int_of_float :: "pyfloat \<Rightarrow> exn + int" where
  "int_of_float f =
     (case f of
        Finite m e \<Rightarrow>
          if e \<ge> 0 then Inr (m * 2 ^ nat e)
          else if m \<ge> 0 then Inr (m div 2 ^ nat (- e))
          else Inr (- ((- m) div 2 ^ nat (- e)))
      | PosInf \<Rightarrow> Inl OverflowError
      | NegInf \<Rightarrow> Inl OverflowError
      | NaN \<Rightarrow> Inl ValueError)"

text \<open>\<open>int(v)\<close> on a decoded JSON value.\<close>

fun py_int :: "pyval \<Rightarrow> exn + int" where
  "py_int PNone = Inl TypeError"
| "py_int (PBool b) = Inr (if b then 1 else 0)"
| "py_int (PInt n) = Inr n"
| "py_int (PFloat f) = int_of_float f"
| "py_int (PStr s) = (case int_of_str s of None \<Rightarrow> Inl ValueError | Some n \<Rightarrow> Inr n)"
| "py_int (PList xs) = Inl TypeError"
| "py_int (PDict kv) = Inl TypeError"

text \<open>\<open>str(n)\<close> on an integer: its decimal numeral, unless it has too many digits.\<close>

definition str_of_int :: "int \<Rightarrow> exn + string" where
  "str_of_int n =
     (let ds = str_of_nat (nat \<bar>n\<bar>)
      in if length ds > int_max_str_digits then Inl ValueError
         else Inr (if n < 0 then ''-'' @ ds else ds))"

text \<open>\<open>d.get(k, default)\<close> on a dictionary held as its list of items.\<close>

definition dict_get :: "(string \<times> pyval) list \<Rightarrow> string \<Rightarrow> pyval \<Rightarrow> pyval" where
  "dict_get kv k d = (case map_of kv k of None \<Rightarrow> d | Some v \<Rightarrow> v)"

subsection \<open>The environment of the adapter\<close>

text \<open>
  What \<open>call_llm_to_refine\<close> reads from outside the repository: the two environment
  variables, the flag \<open>_HAS_GEMINI\<close> set when the client library was imported, the
  remote call (\<open>GenerativeModel\<close>, \<open>generate_content\<close> and \<open>response.text\<close> together: the
  text of the answer or an exception), \<open>json.loads\<close>, \<open>json.dumps\<close> with \<open>indent=2\<close> on
  the heuristics' dictionary, and \<open>repr\<close> for the values whose \<open>str\<close> is not written out
  below. Each of the last four returns its result or raises.
\<close>

record adapter =
  gemini_api_key :: "string option"
  openai_api_key :: "string option"
  has_gemini :: bool
  generate_content :: "string \<Rightarrow> exn + string"
  json_loads :: "string \<Rightarrow> exn + pyval"
  json_dumps :: "verdict \<Rightarrow> exn + string"
  repr :: "pyval \<Rightarrow> exn + string"

text \<open>\<open>str(v)\<close>.\<close>

definition py_str :: "adapter \<Rightarrow> pyval \<Rightarrow> exn + string" where
  "py_str A v =
     (case v of
        PStr s \<Rightarrow> Inr s
      | PNone \<Rightarrow> Inr ''None''
      | PBool b \<Rightarrow> Inr (if b then ''True'' else ''False'')
      | PInt n \<Rightarrow> str_of_int n
      | _ \<Rightarrow> repr A v)"

subsection \<open>The prompt\<close>

definition dq :: "string \<Rightarrow> string" where
  "dq s = [CHR 0x22] @ s @ [CHR 0x22]"

text \<open>The f-string of \<open>_build_llm_prompt\<close>; it raises what \<open>json.dumps\<close> raises.\<close>

definition build_llm_prompt :: "adapter \<Rightarrow> string \<Rightarrow> verdict \<Rightarrow> exn + string" where
  "build_llm_prompt A text heuristics_output =
     (case json_dumps A heuristics_output of
        Inl e \<Rightarrow> Inl e
      | Inr dumped \<Rightarrow>
          Inr (str_join [CHR 0x0A]
            ['''',
             ''You are a concise cybersecurity assistant. The user will provide an email message.'',
             ''Task: Classify the email as one of: Safe, Suspicious, Dangerous.'',
             ''Also return a numeric risk score 0-100, a short list of reasons, and a list of suspicious links with brief issues.'',
             '''',
             ''Important: Respond with VALID JSON only, matching this schema exactly:'',
             ''{'',
             ''  '' @ dq ''risk_level'' @ '': '' @ dq ''Safe|Suspicious|Dangerous'' @ '','',
             ''  '' @ dq ''score'' @ '': 0-100,'',
             ''  '' @ dq ''reasons'' @ '': ['' @ dq ''string'' @ '', '' @ dq ''...'' @ ''],'',
             ''  '' @ dq ''suspicious_links'' @ '': [{'' @ dq ''url'' @ '': '' @ dq ''...'' @ '', '' @
               dq ''problem'' @ '': '' @ dq ''...'' @ ''}]'',
             '''',
             ''}'',
             '''',
             ''Email message:'',
             dq (dq (dq (text @ '' ''))),
             '''',
             ''Heuristics summary (for context):'',
             dumped,
             '''',
             ''Return the JSON and nothing else.'',
             '''']))"

subsection \<open>The call\<close>

text \<open>\<open>os.getenv("GEMINI_API_KEY") or os.getenv("OPENAI_API_KEY")\<close>\<close>

definition api_key :: "adapter \<Rightarrow> string option" where
  "api_key A =
     (case gemini_api_key A of
        None \<Rightarrow> openai_api_key A
      | Some k \<Rightarrow> if k \<noteq> [] then Some k else openai_api_key A)"

definition unavailable :: "adapter \<Rightarrow> bool" where
  "unavailable A = ((case api_key A of None \<Rightarrow> True | Some k \<Rightarrow> k = []) \<or> \<not> has_gemini A)"

text \<open>The JSON substring of the answer: from the first \<open>{\<close> to the last \<open>}\<close>.\<close>

definition find_json :: "string \<Rightarrow> string option" where
  "find_json text_out =
     (let json_start = str_find text_out ''{'';
          json_end = str_rfind text_out ''}''
      in if json_start \<noteq> - 1 \<and> json_end \<noteq> - 1 \<and> json_end > json_start
         then Some (str_slice text_out json_start (json_end + 1))
         else None)"

text \<open>
  The value under \<open>"reasons"\<close> of the dictionary returned: a list as it is, anything
  else as the one-element list of its \<open>str\<close>, which can raise.
\<close>

definition reasons_list :: "adapter \<Rightarrow> pyval \<Rightarrow> exn + pyval list" where
  "reasons_list A parsed_reasons =
     (case parsed_reasons of
        PList xs \<Rightarrow> Inr xs
      | _ \<Rightarrow> (case py_str A parsed_reasons of Inl e \<Rightarrow> Inl e | Inr s \<Rightarrow> Inr [PStr s]))"

text \<open>
  From the decoded value to the dictionary returned: the score is converted first,
  then the dictionary is built. A decoded value that is not a dictionary has no \<open>get\<close>:
  \<open>AttributeError\<close>.
\<close>

definition refined :: "adapter \<Rightarrow> verdict \<Rightarrow> pyval \<Rightarrow> exn + verdict" where
  "refined A heuristics_output parsed =
     (case parsed of
        PDict kv \<Rightarrow>
          (case py_int (dict_get kv ''score'' (PInt (score heuristics_output))) of
             Inl e \<Rightarrow> Inl e
           | Inr parsed_score \<Rightarrow>
               (let parsed_level = dict_get kv ''risk_level'' (risk_level heuristics_output);
                    parsed_reasons = dict_get kv ''reasons'' (PList (reasons heuristics_output));
                    parsed_links =
                      dict_get kv ''suspicious_links''
                        (PList (suspicious_links heuristics_output))
                in (case reasons_list A parsed_reasons of
                      Inl e \<Rightarrow> Inl e
                    | Inr rs \<Rightarrow>
                        Inr \<lparr>risk_level = parsed_level,
                             score = max 0 (min 100 parsed_score),
                             reasons = rs,
                             suspicious_links =
                               (case parsed_links of
                                  PList xs \<Rightarrow> xs
                                | _ \<Rightarrow> suspicious_links heuristics_output)\<rparr>)))
      | _ \<Rightarrow> Inl AttributeError)"

text \<open>The body of the \<open>try\<close>: an exception, or the dictionary it returns.\<close>

definition refine_attempt :: "adapter \<Rightarrow> string \<Rightarrow> verdict \<Rightarrow> exn + verdict" where
  "refine_attempt A prompt heuristics_output =
     (case generate_content A prompt of
        Inl e \<Rightarrow> Inl e
      | Inr response_text \<Rightarrow>
          (let text_out = str_strip response_text
           in (case find_json text_out of
                 Some json_text \<Rightarrow>
                   (case json_loads A json_text of
                      Inl e \<Rightarrow> Inl e
                    | Inr parsed \<Rightarrow> refined A heuristics_output parsed)
               | None \<Rightarrow> Inr heuristics_output)))"

text \<open>
  The prompt is built before the \<open>try\<close>, so an exception of \<open>json.dumps\<close> leaves the
  function. \<open>except Exception\<close> returns the heuristics' dictionary for every exception
  of the body.
\<close>

definition call_llm_to_refine :: "adapter \<Rightarrow> string \<Rightarrow> verdict \<Rightarrow> exn + verdict" where
  "call_llm_to_refine A text heuristics_output =
     (if unavailable A then Inr heuristics_output
      else
        (case build_llm_prompt A text heuristics_output of
           Inl e \<Rightarrow> Inl e
         | Inr prompt \<Rightarrow>
             (case refine_attempt A prompt heuristics_output of
                Inl e \<Rightarrow> Inr heuristics_output
              | Inr final \<Rightarrow> Inr final)))"

definition analyze_text :: "libs \<Rightarrow> adapter \<Rightarrow> string \<Rightarrow> exn + verdict" where
  "analyze_text L A text =
     (let heur = heuristics_analyze L text;
          final = call_llm_to_refine A text heur
      in final)"

section \<open>Notions of the specification\<close>

text \<open>
  The three conditions of the loop body, named. \<open>url_points\<close> is what one URL adds to
  the running score.
\<close>

definition ip_flag :: "string \<Rightarrow> bool" where
  "ip_flag u = re_search ip_re (normalize_url u)"

definition shortener_flag :: "string \<Rightarrow> bool" where
  "shortener_flag u = list_ex (\<lambda>s. str_contains s (normalize_url u)) shorteners"

definition hyphen_flag :: "libs \<Rightarrow> string \<Rightarrow> bool" where
  "hyphen_flag L u =
     (let d = registered_domain L (normalize_url u)
      in d \<noteq> [] \<and> str_count d (CHR ''-'') \<ge> 2)"

definition url_points :: "libs \<Rightarrow> string \<Rightarrow> int" where
  "url_points L u =
     (if ip_flag u then 20 else 0) + (if shortener_flag u then 12 else 0) +
     (if hyphen_flag L u then 6 else 0)"

text \<open>
  The specification's reading of the \<open>problem\<close> of a link: the names of the flags that
  apply, in the order IP, shortener, hyphen pattern, joined by semicolons; null when
  none applies.
\<close>

definition flag_names :: "libs \<Rightarrow> string \<Rightarrow> string list" where
  "flag_names L u =
     (if ip_flag u then [''IP address used in URL''] else []) @
     (if shortener_flag u then [''shortened URL''] else []) @
     (if hyphen_flag L u then [''suspicious domain pattern''] else [])"

definition joined_problem :: "string list \<Rightarrow> string option" where
  "joined_problem names = (if names = [] then None else Some (str_join ''; '' names))"

text \<open>A LinkFinding: the dictionary with the keys \<open>url\<close>, \<open>domain\<close> and \<open>problem\<close>.\<close>

definition link_finding :: "string \<Rightarrow> string \<Rightarrow> string option \<Rightarrow> pyval" where
  "link_finding u d p =
     PDict [(''url'', PStr u), (''domain'', PStr d),
            (''problem'', case p of None \<Rightarrow> PNone | Some s \<Rightarrow> PStr s)]"

text \<open>
  The host portion of a URL, as the specification speaks of it: what stands after the
  scheme's \<open>://\<close>, up to the next \<open>/\<close>, \<open>?\<close> or \<open>#\<close>, without user information before
  an \<open>@\<close> and without a port after a \<open>:\<close>. A dotted quad is four runs of decimal
  digits separated by three dots.
\<close>

fun after_scheme :: "string \<Rightarrow> string option" where
  "after_scheme [] = None"
| "after_scheme (c # cs) =
     (if str_startswith (c # cs) ''://'' then Some (drop 3 (c # cs)) else after_scheme cs)"

definition url_host :: "string \<Rightarrow> string" where
  "url_host u =
     (let rest = (case after_scheme u of None \<Rightarrow> u | Some r \<Rightarrow> r);
          authority = takeWhile (\<lambda>c. c \<noteq> CHR ''/'' \<and> c \<noteq> CHR ''?'' \<and> c \<noteq> CHR ''#'') rest;
          hostport = rev (takeWhile (\<lambda>c. c \<noteq> CHR ''@'') (rev authority))
      in takeWhile (\<lambda>c. c \<noteq> CHR '':'') hostport)"

fun split_on :: "char \<Rightarrow> string \<Rightarrow> string list" where
  "split_on d [] = [[]]"
| "split_on d (c # cs) =
     (if c = d then [] # split_on d cs
      else (case split_on d cs of [] \<Rightarrow> [[c]] | p # ps \<Rightarrow> (c # p) # ps))"

definition is_dotted_quad :: "string \<Rightarrow> bool" where
  "is_dotted_quad h =
     (let parts = split_on (CHR ''.'') h
      in length parts = 4 \<and> list_all (\<lambda>p. p \<noteq> [] \<and> list_all is_digit p) parts)"

text \<open>
  The specification's reading of the adapter's field-wise fallback: each key of the
  decoded object is taken on its own, and a key that is missing or unusable gives way
  to the field of the base verdict.
\<close>

definition fieldwise :: "adapter \<Rightarrow> verdict \<Rightarrow> (string \<times> pyval) list \<Rightarrow> verdict" where
  "fieldwise A base kv =
     \<lparr>risk_level = dict_get kv ''risk_level'' (risk_level base),
      score =
        (case map_of kv ''score'' of
           None \<Rightarrow> score base
         | Some v \<Rightarrow>
             (case py_int v of Inl e \<Rightarrow> score base | Inr n \<Rightarrow> max 0 (min 100 n))),
      reasons =
        (case dict_get kv ''reasons'' (PList (reasons base)) of
           PList xs \<Rightarrow> xs
         | v \<Rightarrow> (case py_str A v of Inl e \<Rightarrow> reasons base | Inr s \<Rightarrow> [PStr s])),
      suspicious_links =
        (case dict_get kv ''suspicious_links'' (PList (suspicious_links base)) of
           PList xs \<Rightarrow> xs
         | _ \<Rightarrow> suspicious_links base)\<rparr>"

text \<open>
  The two conversions of the adapter that can raise on a decoded object: \<open>int\<close> on the
  score (the base score when the key is missing) and \<open>str\<close> on a value under
  \<open>"reasons"\<close> that is not a list.
\<close>

definition score_converts :: "verdict \<Rightarrow> (string \<times> pyval) list \<Rightarrow> bool" where
  "score_converts base kv =
     (case py_int (dict_get kv ''score'' (PInt (score base))) of
        Inl e \<Rightarrow> False
      | Inr n \<Rightarrow> True)"

definition reasons_convert :: "adapter \<Rightarrow> verdict \<Rightarrow> (string \<times> pyval) list \<Rightarrow> bool" where
  "reasons_convert A base kv =
     (case reasons_list A (dict_get kv ''reasons'' (PList (reasons base))) of
        Inl e \<Rightarrow> False
      | Inr rs \<Rightarrow> True)"

text \<open>
  The words a pattern matches, and the shape the IP pattern asks for after the scheme:
  four runs of decimal digits, each at least one digit long, separated by dots.
\<close>

fun lang :: "regex \<Rightarrow> string set" where
  "lang (Lit p) = {p}"
| "lang (Opt r) = insert [] (lang r)"
| "lang (Rep n p) = {w. n \<le> length w \<and> list_all p w}"
| "lang (Seq a b) = {x @ y | x y. x \<in> lang a \<and> y \<in> lang b}"

definition digit_run :: "string \<Rightarrow> bool" where
  "digit_run w = (w \<noteq> [] \<and> list_all is_digit w)"

definition four_digit_runs :: "string \<Rightarrow> bool" where
  "four_digit_runs m =
     (\<exists>a b c d. m = a @ ''.'' @ b @ ''.'' @ c @ ''.'' @ d \<and>
        digit_run a \<and> digit_run b \<and> digit_run c \<and> digit_run d)"

section \<open>Sample environments\<close>

text \<open>
  Libraries that know the listed URLs only: \<open>find_urls\<close> returns those of them that
  occur in the text, and \<open>tld_extract\<close> looks its answer up in a table.
\<close>

definition libs_of :: "string list \<Rightarrow> (string \<times> extract_result) list \<Rightarrow> libs" where
  "libs_of urls exts =
     \<lparr>find_urls = (\<lambda>t. filter (\<lambda>u. str_contains u t) urls),
      tld_extract =
        (\<lambda>u. case map_of exts u of
                None \<Rightarrow> \<lparr>subdomain = [], domain = [], suffix = []\<rparr>
              | Some e \<Rightarrow> e)\<rparr>"

text \<open>
  An adapter with a key and the client library, whose remote model answers \<open>out\<close> and
  whose JSON decoder knows the one text \<open>js\<close>, decoding it to \<open>v\<close>.
\<close>

definition answering :: "string \<Rightarrow> string \<Rightarrow> pyval \<Rightarrow> adapter" where
  "answering out js v =
     \<lparr>gemini_api_key = Some ''key'', openai_api_key = None, has_gemini = True,
      generate_content = (\<lambda>p. Inr out),
      json_loads = (\<lambda>s. if s = js then Inr v else Inl ValueError),
      json_dumps = (\<lambda>h. Inr ''{}''),
      repr = (\<lambda>v. Inr ''?'')\<rparr>"

text \<open>The message of the specification's worked example, its one URL, and libraries
  that answer for that URL as \<open>tldextract\<close> does for an IP address: the whole host as
  the domain and no suffix.\<close>

definition example_text :: string where
  "example_text =
     ''URGENT! Please verify your password immediately at http://192.168.1.5/login''"

definition example_url :: string where
  "example_url = ''http://192.168.1.5/login''"

definition example_libs :: libs where
  "example_libs =
     libs_of [example_url]
       [(example_url, \<lparr>subdomain = [], domain = ''192.168.1.5'', suffix = []\<rparr>)]"

text \<open>A URL whose host begins with four numeric labels and is a name under \<open>example.com\<close>.\<close>

definition numeric_labels_url :: string where
  "numeric_labels_url = ''http://1.2.3.4.example.com/''"

definition numeric_labels_libs :: libs where
  "numeric_labels_libs =
     libs_of [numeric_labels_url]
       [(numeric_labels_url,
         \<lparr>subdomain = ''1.2.3.4'', domain = ''example'', suffix = ''com''\<rparr>)]"

text \<open>A base verdict, and answers of the remote model with the values they decode to.\<close>

definition sample_base :: verdict where
  "sample_base =
     \<lparr>risk_level = PStr ''Safe'', score = 18,
      reasons = [PStr ''Contains 2 exclamation mark(s)''], suspicious_links = []\<rparr>"

text \<open>\<open>{"score": "high", "risk_level": "Dangerous", "reasons": "phish"}\<close>\<close>

definition high_score_json :: string where
  "high_score_json =
     ''{'' @ dq ''score'' @ '': '' @ dq ''high'' @ '', '' @
     dq ''risk_level'' @ '': '' @ dq ''Dangerous'' @ '', '' @
     dq ''reasons'' @ '': '' @ dq ''phish'' @ ''}''"

definition high_score_items :: "(string \<times> pyval) list" where
  "high_score_items =
     [(''score'', PStr ''high''), (''risk_level'', PStr ''Dangerous''),
      (''reasons'', PStr ''phish'')]"

definition high_score_adapter :: adapter where
  "high_score_adapter =
     answering (''Here is the JSON: '' @ high_score_json) high_score_json
       (PDict high_score_items)"

text \<open>\<open>{"score": 85.5, "reasons": "phish"}\<close>\<close>

definition float_score_json :: string where
  "float_score_json =
     ''{'' @ dq ''score'' @ '': 85.5, '' @ dq ''reasons'' @ '': '' @ dq ''phish'' @ ''}''"

definition float_score_items :: "(string \<times> pyval) list" where
  "float_score_items = [(''score'', PFloat (Finite 171 (- 1))), (''reasons'', PStr ''phish'')]"

definition float_score_adapter :: adapter where
  "float_score_adapter = answering float_score_json float_score_json (PDict float_score_items)"

text \<open>\<open>{"risk_level": "Dangerous", "score": null}\<close>\<close>

definition null_score_json :: string where
  "null_score_json =
     ''{'' @ dq ''risk_level'' @ '': '' @ dq ''Dangerous'' @ '', '' @ dq ''score'' @ '': null}''"

definition null_score_items :: "(string \<times> pyval) list" where
  "null_score_items = [(''risk_level'', PStr ''Dangerous''), (''score'', PNone)]"

definition null_score_adapter :: adapter where
  "null_score_adapter = answering null_score_json null_score_json (PDict null_score_items)"

text \<open>\<open>{"risk_level": "Totally harmless", "score": 95}\<close>\<close>

definition harmless_json :: string where
  "harmless_json =
     ''{'' @ dq ''risk_level'' @ '': '' @ dq ''Totally harmless'' @ '', '' @
     dq ''score'' @ '': 95}''"

definition harmless_items :: "(string \<times> pyval) list" where
  "harmless_items = [(''risk_level'', PStr ''Totally harmless''), (''score'', PInt 95)]"

definition harmless_adapter :: adapter where
  "harmless_adapter = answering harmless_json harmless_json (PDict harmless_items)"

text \<open>
  Adapters that fail: no key in the environment, a remote call that raises, an answer
  without braces, and an answer whose braces do not hold JSON.
\<close>

definition keyless_adapter :: adapter where
  "keyless_adapter = (answering harmless_json harmless_json (PDict harmless_items))
     \<lparr>gemini_api_key := None, openai_api_key := Some []\<rparr>"

definition offline_adapter :: adapter where
  "offline_adapter = (answering harmless_json harmless_json (PDict harmless_items))
     \<lparr>generate_content := (\<lambda>p. Inl LibraryError)\<rparr>"

definition chatty_adapter :: adapter where
  "chatty_adapter = answering ''I cannot help with that.'' harmless_json (PDict harmless_items)"

definition garbled_adapter :: adapter where
  "garbled_adapter = answering ''{risk_level: high}'' harmless_json (PDict harmless_items)"

text \<open>
  A URL with user information in front of a dotted-quad host, and libraries that
  resolve it as \<open>tldextract\<close> does for an IP address.
\<close>

definition userinfo_url :: string where
  "userinfo_url = ''http://user@10.0.0.1/''"

definition userinfo_libs :: libs where
  "userinfo_libs =
     libs_of [userinfo_url]
       [(userinfo_url, \<lparr>subdomain = [], domain = ''10.0.0.1'', suffix = []\<rparr>)]"




section \<open>Properties of the heuristic analyzer\<close>

subsection \<open>The loop over the URLs\<close>

lemma inspect_url_eq:
  "inspect_url L u (sc, ls) =
     (sc + url_points L u,
      ls @ [link_finding u (registered_domain L (normalize_url u))
              (joined_problem (flag_names L u))])"
  by (simp add: inspect_url_def url_points_def flag_names_def joined_problem_def
      link_finding_def ip_flag_def shortener_flag_def hyphen_flag_def add_problem_def Let_def)


subsection \<open>Checks that do not fire\<close>

lemma urgency_none:
  "filter (\<lambda>w. str_contains w t_low) urgent = [] \<Longrightarrow> urgency_check t_low st = st"
  by (cases st) (simp add: urgency_check_def)

lemma sensitive_none:
  "filter (\<lambda>w. str_contains w t_low) sensitive = [] \<Longrightarrow> sensitive_check t_low st = st"
  by (cases st) (simp add: sensitive_check_def)

lemma format_none:
  "str_count t (CHR ''!'') < 2 \<Longrightarrow> \<not> re_search caps_re t \<Longrightarrow> format_check t st = st"
  by (cases st) (simp add: format_check_def)

lemma urgency_empty: "urgency_check [] st = st"
  by (rule urgency_none) (simp add: urgent_def str_contains_def)

lemma sensitive_empty: "sensitive_check [] st = st"
  by (rule sensitive_none) (simp add: sensitive_def str_contains_def)

lemma format_empty: "format_check [] st = st"
  by (rule format_none) (simp_all add: str_count_def re_search_def caps_re_def)

lemma strip_whitespace: "list_all isspace s \<Longrightarrow> str_strip s = []"
proof -
  assume "list_all isspace s"
  then have e: "dropWhile isspace s = []" by (simp add: list_all_iff)
  show ?thesis unfolding str_strip_def e by simp
qed

subsection \<open>The worked example, step by step\<close>

lemma example_strip: "str_strip example_text = example_text"
  unfolding example_text_def by code_simp

lemma example_checks:
  "format_check example_text
     (sensitive_check (str_lower example_text)
       (urgency_check (str_lower example_text) ([], 0))) =
   ([''Urgency language: urgent, verify, verify your, immediately'',
     ''Requests sensitive info: password, login'',
     ''Contains long ALL-CAPS word(s)''], 63)"
  unfolding example_text_def by code_simp

lemma example_ip: "ip_flag example_url"
  unfolding example_url_def by code_simp

lemma example_no_shortener: "\<not> shortener_flag example_url"
  unfolding example_url_def by code_simp

lemma example_normalize: "normalize_url example_url = example_url"
  unfolding example_url_def by code_simp

lemma example_find: "find_urls example_libs example_text = [example_url]"
  unfolding example_libs_def example_url_def example_text_def by code_simp

subsection \<open>What the patterns match\<close>

lemma startswith_iff: "str_startswith s p = (\<exists>t. s = p @ t)"
  by (induction s p rule: str_startswith.induct) auto

lemma set_tails: "set (tails s) = {t. \<exists>pre. s = pre @ t}"
proof (induction s)
  case Nil
  then show ?case by simp
next
  case (Cons c cs)
  show ?case
  proof (rule set_eqI)
    fix t
    show "t \<in> set (tails (c # cs)) \<longleftrightarrow> t \<in> {t. \<exists>pre. c # cs = pre @ t}"
      using Cons by (auto simp: Cons_eq_append_conv)
  qed
qed

lemma rests_rep: "set (rests (Rep n p) s) = {t. \<exists>m. n \<le> length m \<and> list_all p m \<and> s = m @ t}"
proof (rule set_eqI)
  fix t
  let ?k = "length (takeWhile p s)"
  show "t \<in> set (rests (Rep n p) s) \<longleftrightarrow> t \<in> {t. \<exists>m. n \<le> length m \<and> list_all p m \<and> s = m @ t}"
  proof
    assume "t \<in> set (rests (Rep n p) s)"
    then obtain i where i: "n \<le> i" "i \<le> ?k" "t = drop i s" by auto
    have le: "?k \<le> length s" by (rule length_takeWhile_le)
    have "take i s = take i (takeWhile p s)"
      using i(2) by (metis takeWhile_dropWhile_id take_append append.right_neutral diff_is_0_eq take_0)
    then have "list_all p (take i s)"
      by (metis in_set_takeD list_all_iff set_takeWhileD)
    moreover have "length (take i s) = i" using i(2) le by simp
    ultimately show "t \<in> {t. \<exists>m. n \<le> length m \<and> list_all p m \<and> s = m @ t}"
      using i by (auto intro!: exI [of _ "take i s"])
  next
    assume "t \<in> {t. \<exists>m. n \<le> length m \<and> list_all p m \<and> s = m @ t}"
    then obtain m where m: "n \<le> length m" "list_all p m" "s = m @ t" by auto
    have "takeWhile p s = m @ takeWhile p t"
      using m by (simp add: list_all_iff)
    then have "length m \<le> ?k" by simp
    with m(1) have "length m \<in> set (rev [n ..< Suc ?k])" by auto
    then have "drop (length m) s \<in> set (rests (Rep n p) s)"
      unfolding rests.simps set_map by (rule imageI)
    moreover have "drop (length m) s = t" using m by simp
    ultimately show "t \<in> set (rests (Rep n p) s)" by simp
  qed
qed

lemma rests_lang: "set (rests r s) = {t. \<exists>m. m \<in> lang r \<and> s = m @ t}"
proof (induction r arbitrary: s)
  case (Lit p)
  show ?case by (auto simp: startswith_iff)
next
  case (Opt r)
  show ?case by (auto simp: Opt)
next
  case (Rep n p)
  show ?case unfolding rests_rep by auto
next
  case (Seq a b)
  show ?case
  proof (rule set_eqI)
    fix t
    have step: "t \<in> set (rests (Seq a b) s) \<longleftrightarrow>
        (\<exists>t' x y. x \<in> lang a \<and> s = x @ t' \<and> y \<in> lang b \<and> t' = y @ t)"
      using Seq by auto
    show "t \<in> set (rests (Seq a b) s) \<longleftrightarrow> t \<in> {t. \<exists>m. m \<in> lang (Seq a b) \<and> s = m @ t}"
    proof
      assume "t \<in> set (rests (Seq a b) s)"
      with step obtain x y where xy: "x \<in> lang a" "y \<in> lang b" "s = x @ y @ t" by auto
      then have "x @ y \<in> lang (Seq a b)" "s = (x @ y) @ t" by auto
      then show "t \<in> {t. \<exists>m. m \<in> lang (Seq a b) \<and> s = m @ t}" by blast
    next
      assume "t \<in> {t. \<exists>m. m \<in> lang (Seq a b) \<and> s = m @ t}"
      then obtain x y where "x \<in> lang a" "y \<in> lang b" "s = (x @ y) @ t" by auto
      then have "\<exists>t' x y. x \<in> lang a \<and> s = x @ t' \<and> y \<in> lang b \<and> t' = y @ t" by auto
      with step show "t \<in> set (rests (Seq a b) s)" by simp
    qed
  qed
qed

lemma re_search_lang: "re_search r s = (\<exists>pre m post. m \<in> lang r \<and> s = pre @ m @ post)"
proof -
  have "re_search r s = (\<exists>t \<in> set (tails s). set (rests r t) \<noteq> {})"
    by (simp add: re_search_def list_ex_iff)
  also have "\<dots> = (\<exists>pre t. s = pre @ t \<and> (\<exists>m post. m \<in> lang r \<and> t = m @ post))"
    unfolding set_tails rests_lang by auto
  also have "\<dots> = (\<exists>pre m post. m \<in> lang r \<and> s = pre @ m @ post)"
    by blast
  finally show ?thesis .
qed

lemma lang_seq: "m \<in> lang (Seq a b) \<longleftrightarrow> (\<exists>x y. m = x @ y \<and> x \<in> lang a \<and> y \<in> lang b)"
  by auto

lemma lang_lit_seq: "m \<in> lang (Seq (Lit p) r) \<longleftrightarrow> (\<exists>y. m = p @ y \<and> y \<in> lang r)"
  by auto

lemma lang_digits_seq:
  "m \<in> lang (Seq (Rep 1 is_digit) r) \<longleftrightarrow> (\<exists>a y. m = a @ y \<and> digit_run a \<and> y \<in> lang r)"
  by (auto simp: digit_run_def Suc_le_eq)

lemma lang_digits: "m \<in> lang (Rep 1 is_digit) \<longleftrightarrow> digit_run m"
  by (auto simp: digit_run_def Suc_le_eq)

lemma lang_opt_seq:
  "m \<in> lang (Seq (Opt (Lit p)) r) \<longleftrightarrow> m \<in> lang r \<or> (\<exists>y. m = p @ y \<and> y \<in> lang r)"
  by auto

lemma lang_label_seq:
  "m \<in> lang (Seq (Rep 1 is_digit) (Seq (Lit ''.'') r)) \<longleftrightarrow>
     (\<exists>a y. m = a @ ''.'' @ y \<and> digit_run a \<and> y \<in> lang r)"
  unfolding lang_digits_seq lang_lit_seq by blast

lemma lang_four:
  "m \<in> lang (Seq (Rep 1 is_digit) (Seq (Lit ''.'')
       (Seq (Rep 1 is_digit) (Seq (Lit ''.'')
       (Seq (Rep 1 is_digit) (Seq (Lit ''.'')
       (Rep 1 is_digit))))))) \<longleftrightarrow> four_digit_runs m"
proof
  assume "m \<in> lang (Seq (Rep 1 is_digit) (Seq (Lit ''.'')
       (Seq (Rep 1 is_digit) (Seq (Lit ''.'')
       (Seq (Rep 1 is_digit) (Seq (Lit ''.'')
       (Rep 1 is_digit)))))))"
  then obtain a b c d where "m = a @ ''.'' @ b @ ''.'' @ c @ ''.'' @ d"
    "digit_run a" "digit_run b" "digit_run c" "digit_run d"
    unfolding lang_label_seq lang_digits by blast
  then show "four_digit_runs m" unfolding four_digit_runs_def by blast
next
  assume "four_digit_runs m"
  then obtain a b c d where "m = a @ ''.'' @ b @ ''.'' @ c @ ''.'' @ d"
    "digit_run a" "digit_run b" "digit_run c" "digit_run d"
    unfolding four_digit_runs_def by blast
  then show "m \<in> lang (Seq (Rep 1 is_digit) (Seq (Lit ''.'')
       (Seq (Rep 1 is_digit) (Seq (Lit ''.'')
       (Seq (Rep 1 is_digit) (Seq (Lit ''.'')
       (Rep 1 is_digit)))))))"
    unfolding lang_label_seq lang_digits by blast
qed

lemma lang_ip: "m \<in> lang ip_re \<longleftrightarrow> (\<exists>q. four_digit_runs q \<and> (m = ''http://'' @ q \<or> m = ''https://'' @ q))"
  unfolding ip_re_def lang_lit_seq lang_opt_seq lang_four by auto

subsection \<open>The claims\<close>

text \<open>
  Claim C1, as the code has it. The empty string is answered at once with the verdict
  Safe, 0, "Empty message", no links. A string of whitespace only that is not empty
  passes the test \<open>not text\<close>: it is stripped to the empty text and analysed, and when
  the URL extractor finds nothing in the empty text the verdict is Safe, 0, with the
  neutral reason "No strong heuristic flags found".
\<close>

theorem empty_message_short_circuit:
  "heuristics_analyze L [] =
     \<lparr>risk_level = PStr ''Safe'', score = 0, reasons = [PStr ''Empty message''],
      suspicious_links = []\<rparr> \<and>
   (text \<noteq> [] \<and> list_all isspace text \<and> find_urls L [] = [] \<longrightarrow>
    heuristics_analyze L text =
      \<lparr>risk_level = PStr ''Safe'', score = 0,
       reasons = [PStr ''No strong heuristic flags found''], suspicious_links = []\<rparr>)"
  by (simp add: heuristics_analyze_def strip_whitespace str_lower_def urgency_empty
      sensitive_empty format_empty label_of_def)

theorem empty_message_short_circuit_witness:
  "list_all isspace [CHR '' '', CHR 0x09, CHR 0x0A] \<and>
   heuristics_analyze (libs_of [] []) [CHR '' '', CHR 0x09, CHR 0x0A] =
     \<lparr>risk_level = PStr ''Safe'', score = 0,
      reasons = [PStr ''No strong heuristic flags found''], suspicious_links = []\<rparr>"
proof -
  have a: "list_all isspace [CHR '' '', CHR 0x09, CHR 0x0A]" by code_simp
  have b: "find_urls (libs_of [] []) [] = []" by (simp add: libs_of_def)
  show ?thesis
    using empty_message_short_circuit [of "libs_of [] []" "[CHR '' '', CHR 0x09, CHR 0x0A]"] a b
    by simp
qed

text \<open>
  Claim C1 as stated fails on a single space: the input is whitespace only, and the
  verdict is not the one with the reason "Empty message".
\<close>

theorem whitespace_only_not_short_circuited:
  "list_all isspace '' '' \<and>
   heuristics_analyze (libs_of [] []) '' '' \<noteq>
     \<lparr>risk_level = PStr ''Safe'', score = 0, reasons = [PStr ''Empty message''],
      suspicious_links = []\<rparr>"
  by code_simp

text \<open>
  Claim C2. For every input the score of the verdict lies between 0 and 100, and the
  risk level is Dangerous from 60 on, Suspicious from 30 to 59 and Safe below 30.
\<close>

theorem score_bounds_and_label:
  "0 \<le> score (heuristics_analyze L text) \<and> score (heuristics_analyze L text) \<le> 100 \<and>
   risk_level (heuristics_analyze L text) =
     PStr (if score (heuristics_analyze L text) \<ge> 60 then ''Dangerous''
           else if score (heuristics_analyze L text) \<ge> 30 then ''Suspicious''
           else ''Safe'')"
  by (auto simp add: heuristics_analyze_def Let_def label_of_def split: prod.splits)

text \<open>
  Claim C5, as the code has it. On the example message, with libraries that find its
  one URL and resolve it to the domain \<open>192.168.1.5\<close> without a suffix, the raw score
  is 83: urgency 28, sensitive information 30, the six capitals of URGENT 5, no bonus
  for the single exclamation mark, and 20 for the IP address in the URL. The final
  score is 83, the level Dangerous, and the one link has the problem
  "IP address used in URL".
\<close>

theorem urgent_example_verdict:
  assumes "find_urls L example_text = [example_url]"
    and "tld_extract L example_url =
           \<lparr>subdomain = [], domain = ''192.168.1.5'', suffix = []\<rparr>"
  shows "heuristics_analyze L example_text =
     \<lparr>risk_level = PStr ''Dangerous'', score = 83,
      reasons = [PStr ''Urgency language: urgent, verify, verify your, immediately'',
                 PStr ''Requests sensitive info: password, login'',
                 PStr ''Contains long ALL-CAPS word(s)'',
                 PStr (''Found 1 link(s) '' @ em_dash @ '' inspect domains'')],
      suspicious_links =
        [link_finding example_url ''192.168.1.5'' (Some ''IP address used in URL'')]\<rparr>"
proof -
  have d: "registered_domain L example_url = ''192.168.1.5''"
    by (simp add: registered_domain_def assms)
  have h: "\<not> hyphen_flag L example_url"
    by (simp add: hyphen_flag_def example_normalize d str_count_def)
  have f: "joined_problem (flag_names L example_url) = Some ''IP address used in URL''"
    by (simp add: flag_names_def example_ip example_no_shortener h joined_problem_def)
  have p: "url_points L example_url = 20"
    by (simp add: url_points_def example_ip example_no_shortener h)
  have ne: "example_text \<noteq> []"
    by (simp add: example_text_def)
  show ?thesis
    by (simp add: heuristics_analyze_def ne example_strip example_checks assms
        inspect_url_eq example_normalize d f p label_of_def str_of_nat.simps)
qed

theorem urgent_example_verdict_witness:
  "heuristics_analyze example_libs example_text =
     \<lparr>risk_level = PStr ''Dangerous'', score = 83,
      reasons = [PStr ''Urgency language: urgent, verify, verify your, immediately'',
                 PStr ''Requests sensitive info: password, login'',
                 PStr ''Contains long ALL-CAPS word(s)'',
                 PStr (''Found 1 link(s) '' @ em_dash @ '' inspect domains'')],
      suspicious_links =
        [link_finding example_url ''192.168.1.5'' (Some ''IP address used in URL'')]\<rparr>"
proof -
  have b: "tld_extract example_libs example_url =
             \<lparr>subdomain = [], domain = ''192.168.1.5'', suffix = []\<rparr>"
    by (simp add: example_libs_def libs_of_def)
  show ?thesis
    using urgent_example_verdict [OF example_find b] .
qed

text \<open>Claim C5 as stated fails: on the example message the score is not 78.\<close>

theorem urgent_example_score_not_78:
  "score (heuristics_analyze example_libs example_text) \<noteq> 78"
  unfolding example_libs_def example_url_def example_text_def by code_simp

text \<open>
  Claim C6. The reasons of a verdict are never empty; when no check fires (no urgency
  phrase, no sensitive phrase, fewer than two exclamation marks, no run of six
  capitals, no URL) the reasons are the single neutral entry.
\<close>

theorem reasons_never_empty:
  "reasons (heuristics_analyze L text) \<noteq> [] \<and>
   (text \<noteq> [] \<and>
    filter (\<lambda>w. str_contains w (str_lower (str_strip text))) urgent = [] \<and>
    filter (\<lambda>w. str_contains w (str_lower (str_strip text))) sensitive = [] \<and>
    str_count (str_strip text) (CHR ''!'') < 2 \<and>
    \<not> re_search caps_re (str_strip text) \<and>
    find_urls L (str_strip text) = [] \<longrightarrow>
    reasons (heuristics_analyze L text) = [PStr ''No strong heuristic flags found''])"
proof (intro conjI impI)
  show "reasons (heuristics_analyze L text) \<noteq> []"
    by (simp add: heuristics_analyze_def Let_def split: prod.splits)
next
  assume "text \<noteq> [] \<and>
    filter (\<lambda>w. str_contains w (str_lower (str_strip text))) urgent = [] \<and>
    filter (\<lambda>w. str_contains w (str_lower (str_strip text))) sensitive = [] \<and>
    str_count (str_strip text) (CHR ''!'') < 2 \<and>
    \<not> re_search caps_re (str_strip text) \<and>
    find_urls L (str_strip text) = []"
  then show "reasons (heuristics_analyze L text) = [PStr ''No strong heuristic flags found'']"
    by (simp add: heuristics_analyze_def urgency_none sensitive_none format_none)
qed

theorem reasons_never_empty_witness:
  "reasons (heuristics_analyze (libs_of [] []) ''See you tomorrow for coffee.'') =
     [PStr ''No strong heuristic flags found'']"
proof -
  have h: "''See you tomorrow for coffee.'' \<noteq> [] \<and>
    filter (\<lambda>w. str_contains w (str_lower (str_strip ''See you tomorrow for coffee.'')))
      urgent = [] \<and>
    filter (\<lambda>w. str_contains w (str_lower (str_strip ''See you tomorrow for coffee.'')))
      sensitive = [] \<and>
    str_count (str_strip ''See you tomorrow for coffee.'') (CHR ''!'') < 2 \<and>
    \<not> re_search caps_re (str_strip ''See you tomorrow for coffee.'') \<and>
    find_urls (libs_of [] []) (str_strip ''See you tomorrow for coffee.'') = []"
    by code_simp
  from reasons_never_empty [of "libs_of [] []" "''See you tomorrow for coffee.''"] h
  show ?thesis by blast
qed


text \<open>
  What the loop body does with the IP pattern: it adds 20 to the score and puts
  "IP address used in URL" into the problem of the link exactly when somewhere in the
  normalized URL \<open>http://\<close> or \<open>https://\<close> is directly followed by four runs of
  digits separated by dots.
\<close>

lemma ip_flag_iff_pattern:
  "fst (inspect_url L u (sc, ls)) =
     sc + (if ip_flag u then 20 else 0) + (if shortener_flag u then 12 else 0) +
       (if hyphen_flag L u then 6 else 0) \<and>
   snd (inspect_url L u (sc, ls)) =
     ls @ [link_finding u (registered_domain L (normalize_url u))
             (joined_problem (flag_names L u))] \<and>
   (case joined_problem (flag_names L u) of
      None \<Rightarrow> False
    | Some p \<Rightarrow> str_contains ''IP address used in URL'' p) = ip_flag u \<and>
   ip_flag u =
     (\<exists>pre q post. four_digit_runs q \<and>
        (normalize_url u = pre @ ''http://'' @ q @ post \<or>
         normalize_url u = pre @ ''https://'' @ q @ post))"
proof (intro conjI)
  show "fst (inspect_url L u (sc, ls)) =
     sc + (if ip_flag u then 20 else 0) + (if shortener_flag u then 12 else 0) +
       (if hyphen_flag L u then 6 else 0)"
    by (simp add: inspect_url_eq url_points_def)
  show "snd (inspect_url L u (sc, ls)) =
     ls @ [link_finding u (registered_domain L (normalize_url u))
             (joined_problem (flag_names L u))]"
    by (simp add: inspect_url_eq)
  have n1: "\<not> str_contains ''IP address used in URL'' ''shortened URL''"
    by code_simp
  have n2: "\<not> str_contains ''IP address used in URL'' ''suspicious domain pattern''"
    by code_simp
  have n3: "\<not> str_contains ''IP address used in URL''
                ''shortened URL; suspicious domain pattern''"
    by code_simp
  have y: "str_contains ''IP address used in URL'' (''IP address used in URL'' @ r)" for r
    by (simp add: str_contains_def startswith_iff)
  show "(case joined_problem (flag_names L u) of
      None \<Rightarrow> False
    | Some p \<Rightarrow> str_contains ''IP address used in URL'' p) = ip_flag u"
    using n1 n2 n3 y [of "[]"] y [of "''; shortened URL''"]
      y [of "''; suspicious domain pattern''"]
      y [of "''; shortened URL; suspicious domain pattern''"]
    by (simp add: joined_problem_def flag_names_def)
  show "ip_flag u =
     (\<exists>pre q post. four_digit_runs q \<and>
        (normalize_url u = pre @ ''http://'' @ q @ post \<or>
         normalize_url u = pre @ ''https://'' @ q @ post))"
  proof
    assume "ip_flag u"
    then obtain pre m post where m: "m \<in> lang ip_re" "normalize_url u = pre @ m @ post"
      unfolding ip_flag_def re_search_lang by blast
    from m(1) obtain q where q: "four_digit_runs q" "m = ''http://'' @ q \<or> m = ''https://'' @ q"
      unfolding lang_ip by blast
    from q(2) m(2) have "normalize_url u = pre @ ''http://'' @ q @ post \<or>
         normalize_url u = pre @ ''https://'' @ q @ post"
      by auto
    with q(1) show "\<exists>pre q post. four_digit_runs q \<and>
        (normalize_url u = pre @ ''http://'' @ q @ post \<or>
         normalize_url u = pre @ ''https://'' @ q @ post)"
      by blast
  next
    assume "\<exists>pre q post. four_digit_runs q \<and>
        (normalize_url u = pre @ ''http://'' @ q @ post \<or>
         normalize_url u = pre @ ''https://'' @ q @ post)"
    then obtain pre q post where q: "four_digit_runs q"
      and n: "normalize_url u = pre @ ''http://'' @ q @ post \<or>
              normalize_url u = pre @ ''https://'' @ q @ post"
      by blast
    from n show "ip_flag u"
    proof
      assume "normalize_url u = pre @ ''http://'' @ q @ post"
      then have "normalize_url u = pre @ (''http://'' @ q) @ post" by simp
      moreover have "''http://'' @ q \<in> lang ip_re"
        unfolding lang_ip using q by blast
      ultimately show "ip_flag u"
        unfolding ip_flag_def re_search_lang by blast
    next
      assume "normalize_url u = pre @ ''https://'' @ q @ post"
      then have "normalize_url u = pre @ (''https://'' @ q) @ post" by simp
      moreover have "''https://'' @ q \<in> lang ip_re"
        unfolding lang_ip using q by blast
      ultimately show "ip_flag u"
        unfolding ip_flag_def re_search_lang by blast
    qed
  qed
qed

text \<open>
  Claim C7 asks that "IP address used in URL" be flagged, and 20 added, exactly when
  the host of the normalized URL is a dotted-quad IPv4 literal. The code searches the
  URL for \<open>https?://\<close> followed by four numeric labels and does not look at where the
  host ends or begins. On \<open>http://1.2.3.4.example.com/\<close> the host is a name under
  \<open>example.com\<close>, not a dotted quad, and the analyzer flags the link and scores 20. On
  \<open>http://user@10.0.0.1/\<close> the host is the dotted quad \<open>10.0.0.1\<close>, and the loop
  body raises no flag and adds nothing.
\<close>

theorem ip_flag_on_named_host:
  "\<not> is_dotted_quad (url_host (normalize_url numeric_labels_url)) \<and>
   heuristics_analyze numeric_labels_libs numeric_labels_url =
     \<lparr>risk_level = PStr ''Safe'', score = 20,
      reasons = [PStr (''Found 1 link(s) '' @ em_dash @ '' inspect domains'')],
      suspicious_links =
        [link_finding numeric_labels_url ''example.com'' (Some ''IP address used in URL'')]\<rparr> \<and>
   is_dotted_quad (url_host (normalize_url userinfo_url)) \<and>
   inspect_url userinfo_libs userinfo_url (0, []) =
     (0, [link_finding userinfo_url ''10.0.0.1'' None])"
  unfolding numeric_labels_libs_def numeric_labels_url_def userinfo_libs_def userinfo_url_def
  by code_simp

section \<open>Properties of the refinement adapter\<close>

subsection \<open>The outcomes of the call\<close>

lemma refined_raises:
  "refined A base v = Inl e \<longleftrightarrow>
     ((\<forall>kv. v \<noteq> PDict kv) \<and> e = AttributeError) \<or>
     (\<exists>kv. v = PDict kv \<and>
        (py_int (dict_get kv ''score'' (PInt (score base))) = Inl e \<or>
         (score_converts base kv \<and>
          reasons_list A (dict_get kv ''reasons'' (PList (reasons base))) = Inl e)))"
  by (cases v) (auto simp: refined_def score_converts_def Let_def split: sum.splits)

lemma refined_dict_fails:
  "\<not> score_converts base kv \<or> \<not> reasons_convert A base kv \<Longrightarrow>
   \<exists>e. refined A base (PDict kv) = Inl e"
  by (auto simp: refined_def score_converts_def reasons_convert_def Let_def split: sum.splits)

lemma refined_dict_converts:
  "score_converts base kv \<Longrightarrow> reasons_convert A base kv \<Longrightarrow>
   \<exists>n rs. py_int (dict_get kv ''score'' (PInt (score base))) = Inr n \<and>
          reasons_list A (dict_get kv ''reasons'' (PList (reasons base))) = Inr rs \<and>
          refined A base (PDict kv) =
            Inr \<lparr>risk_level = dict_get kv ''risk_level'' (risk_level base),
                 score = max 0 (min 100 n),
                 reasons = rs,
                 suspicious_links =
                   (case dict_get kv ''suspicious_links'' (PList (suspicious_links base)) of
                      PList xs \<Rightarrow> xs
                    | _ \<Rightarrow> suspicious_links base)\<rparr>"
  by (auto simp: refined_def score_converts_def reasons_convert_def Let_def split: sum.splits)

lemma attempt_raises:
  "refine_attempt A p base = Inl e \<longleftrightarrow>
     generate_content A p = Inl e \<or>
     (\<exists>out js. generate_content A p = Inr out \<and> find_json (str_strip out) = Some js \<and>
        (json_loads A js = Inl e \<or>
         (\<exists>v. json_loads A js = Inr v \<and> refined A base v = Inl e)))"
  by (auto simp: refine_attempt_def Let_def split: sum.splits option.splits)

lemma attempt_no_json:
  "generate_content A p = Inr out \<Longrightarrow> find_json (str_strip out) = None \<Longrightarrow>
   refine_attempt A p base = Inr base"
  by (simp add: refine_attempt_def)

lemma attempt_dict:
  "generate_content A p = Inr out \<Longrightarrow> find_json (str_strip out) = Some js \<Longrightarrow>
   json_loads A js = Inr v \<Longrightarrow> refine_attempt A p base = refined A base v"
  by (simp add: refine_attempt_def)

lemma call_unavailable: "unavailable A \<Longrightarrow> call_llm_to_refine A text base = Inr base"
  by (simp add: call_llm_to_refine_def)

lemma call_prompt_raises:
  "\<not> unavailable A \<Longrightarrow> build_llm_prompt A text base = Inl e \<Longrightarrow>
   call_llm_to_refine A text base = Inl e"
  by (simp add: call_llm_to_refine_def)

lemma call_raises:
  "build_llm_prompt A text base = Inr p \<Longrightarrow> refine_attempt A p base = Inl e \<Longrightarrow>
   call_llm_to_refine A text base = Inr base"
  by (simp add: call_llm_to_refine_def)

lemma call_returns:
  "\<not> unavailable A \<Longrightarrow> build_llm_prompt A text base = Inr p \<Longrightarrow>
   refine_attempt A p base = Inr v \<Longrightarrow> call_llm_to_refine A text base = Inr v"
  by (simp add: call_llm_to_refine_def)


lemma answering_available: "\<not> unavailable (answering out js v)"
  by (simp add: unavailable_def api_key_def answering_def)

lemma answering_prompt: "\<exists>p. build_llm_prompt (answering out js v) text base = Inr p"
  by (simp add: build_llm_prompt_def answering_def)

text \<open>
  Every failure the handler sees gives the base verdict back. Once the adapter is
  unavailable, or the prompt is built and then the remote call raises, the answer holds
  no JSON between braces, the JSON does not decode, the decoded value is not an
  object, or a conversion of the object's score or reasons raises, the result is the
  base verdict, unchanged.
\<close>

lemma fallback_on_failure:
  assumes "unavailable A \<or>
     (\<exists>p. build_llm_prompt A text base = Inr p \<and>
        ((\<exists>e. generate_content A p = Inl e) \<or>
         (\<exists>out. generate_content A p = Inr out \<and>
            (find_json (str_strip out) = None \<or>
             (\<exists>js. find_json (str_strip out) = Some js \<and>
                ((\<exists>e. json_loads A js = Inl e) \<or>
                 (\<exists>v. json_loads A js = Inr v \<and> (\<forall>kv. v \<noteq> PDict kv)) \<or>
                 (\<exists>kv. json_loads A js = Inr (PDict kv) \<and>
                    (\<not> score_converts base kv \<or> \<not> reasons_convert A base kv))))))))"
  shows "call_llm_to_refine A text base = Inr base"
proof (cases "unavailable A")
  case True
  then show ?thesis by (rule call_unavailable)
next
  case False
  with assms obtain p where p: "build_llm_prompt A text base = Inr p"
    and rest: "(\<exists>e. generate_content A p = Inl e) \<or>
         (\<exists>out. generate_content A p = Inr out \<and>
            (find_json (str_strip out) = None \<or>
             (\<exists>js. find_json (str_strip out) = Some js \<and>
                ((\<exists>e. json_loads A js = Inl e) \<or>
                 (\<exists>v. json_loads A js = Inr v \<and> (\<forall>kv. v \<noteq> PDict kv)) \<or>
                 (\<exists>kv. json_loads A js = Inr (PDict kv) \<and>
                    (\<not> score_converts base kv \<or> \<not> reasons_convert A base kv))))))"
    by blast
  from rest consider
      (remote) e where "generate_content A p = Inl e"
    | (nojson) out where "generate_content A p = Inr out" "find_json (str_strip out) = None"
    | (decode) out js e where "generate_content A p = Inr out"
        "find_json (str_strip out) = Some js" "json_loads A js = Inl e"
    | (nodict) out js v where "generate_content A p = Inr out"
        "find_json (str_strip out) = Some js" "json_loads A js = Inr v" "\<forall>kv. v \<noteq> PDict kv"
    | (convert) out js kv where "generate_content A p = Inr out"
        "find_json (str_strip out) = Some js" "json_loads A js = Inr (PDict kv)"
        "\<not> score_converts base kv \<or> \<not> reasons_convert A base kv"
    by blast
  then show ?thesis
  proof cases
    case remote
    then have "refine_attempt A p base = Inl e" by (simp add: attempt_raises)
    with p show ?thesis by (rule call_raises)
  next
    case nojson
    then have "refine_attempt A p base = Inr base" by (rule attempt_no_json)
    with False p show ?thesis by (rule call_returns)
  next
    case decode
    then have "refine_attempt A p base = Inl e" by (simp add: attempt_raises)
    with p show ?thesis by (rule call_raises)
  next
    case nodict
    then have "refined A base v = Inl AttributeError" by (simp add: refined_raises)
    with nodict have "refine_attempt A p base = Inl AttributeError"
      by (simp add: attempt_raises)
    with p show ?thesis by (rule call_raises)
  next
    case convert
    then obtain e where "refined A base (PDict kv) = Inl e"
      using refined_dict_fails by blast
    with convert have "refine_attempt A p base = Inl e" by (simp add: attempt_raises)
    with p show ?thesis by (rule call_raises)
  qed
qed

lemma fallback_examples:
  "call_llm_to_refine keyless_adapter ''Hello!!'' sample_base = Inr sample_base \<and>
   call_llm_to_refine offline_adapter ''Hello!!'' sample_base = Inr sample_base \<and>
   call_llm_to_refine chatty_adapter ''Hello!!'' sample_base = Inr sample_base \<and>
   call_llm_to_refine garbled_adapter ''Hello!!'' sample_base = Inr sample_base"
  unfolding keyless_adapter_def offline_adapter_def chatty_adapter_def garbled_adapter_def
    harmless_json_def harmless_items_def sample_base_def
  by code_simp

subsection \<open>The claims about the adapter\<close>


text \<open>
  Claim C4, as the code has it. When the adapter's answer decodes to an object and the
  base score lies in 0..100, the fields fall back one by one as the specification says
  (the score converted and clamped, the level, the reasons and the links each replaced
  by the base's when missing, a lone reason wrapped in a list after \<open>str\<close>), provided
  the two conversions succeed: \<open>int\<close> on the score when it is present, \<open>str\<close> on a
  lone reason. When one of them raises, the whole base verdict is returned, whatever
  the other fields of the answer hold. In both cases the function returns: no field of
  the answer makes an exception reach the caller.
\<close>

theorem refined_fields:
  assumes "\<not> unavailable A"
    and "build_llm_prompt A text base = Inr p"
    and "generate_content A p = Inr out"
    and "find_json (str_strip out) = Some js"
    and "json_loads A js = Inr (PDict kv)"
    and "0 \<le> score base" and "score base \<le> 100"
  shows "call_llm_to_refine A text base =
     Inr (if score_converts base kv \<and> reasons_convert A base kv
          then fieldwise A base kv else base)"
proof -
  have att: "refine_attempt A p base = refined A base (PDict kv)"
    using assms(3-5) by (rule attempt_dict)
  show ?thesis
  proof (cases "score_converts base kv \<and> reasons_convert A base kv")
    case True
    then obtain n rs where n: "py_int (dict_get kv ''score'' (PInt (score base))) = Inr n"
      and rs: "reasons_list A (dict_get kv ''reasons'' (PList (reasons base))) = Inr rs"
      and r: "refined A base (PDict kv) =
            Inr \<lparr>risk_level = dict_get kv ''risk_level'' (risk_level base),
                 score = max 0 (min 100 n),
                 reasons = rs,
                 suspicious_links =
                   (case dict_get kv ''suspicious_links'' (PList (suspicious_links base)) of
                      PList xs \<Rightarrow> xs
                    | _ \<Rightarrow> suspicious_links base)\<rparr>"
      using refined_dict_converts by blast
    have sc: "(case map_of kv ''score'' of None \<Rightarrow> score base
         | Some v \<Rightarrow> (case py_int v of Inl e \<Rightarrow> score base | Inr n \<Rightarrow> max 0 (min 100 n))) =
         max 0 (min 100 n)"
      using n assms(6,7) by (auto simp: dict_get_def split: option.splits)
    have re: "(case dict_get kv ''reasons'' (PList (reasons base)) of
           PList xs \<Rightarrow> xs
         | v \<Rightarrow> (case py_str A v of Inl e \<Rightarrow> reasons base | Inr s \<Rightarrow> [PStr s])) = rs"
      using rs by (auto simp: reasons_list_def split: pyval.splits sum.splits)
    have "refined A base (PDict kv) = Inr (fieldwise A base kv)"
      unfolding r fieldwise_def sc re by simp
    with att assms(1,2) have "call_llm_to_refine A text base = Inr (fieldwise A base kv)"
      by (simp add: call_returns)
    with True show ?thesis by simp
  next
    case False
    then obtain e where "refined A base (PDict kv) = Inl e"
      using refined_dict_fails by blast
    with att assms(2) have "call_llm_to_refine A text base = Inr base"
      by (simp add: call_raises)
    with False show ?thesis by auto
  qed
qed

theorem refined_fields_witness:
  "call_llm_to_refine float_score_adapter ''Hello!!'' sample_base =
     Inr \<lparr>risk_level = PStr ''Safe'', score = 85, reasons = [PStr ''phish''],
          suspicious_links = []\<rparr>"
proof -
  have a: "\<not> unavailable float_score_adapter"
    by (simp add: float_score_adapter_def answering_available)
  obtain p where p: "build_llm_prompt float_score_adapter ''Hello!!'' sample_base = Inr p"
    unfolding float_score_adapter_def using answering_prompt by blast
  have b: "generate_content float_score_adapter p = Inr float_score_json"
    by (simp add: float_score_adapter_def answering_def)
  have c: "find_json (str_strip float_score_json) = Some float_score_json"
    unfolding float_score_json_def by code_simp
  have d: "json_loads float_score_adapter float_score_json = Inr (PDict float_score_items)"
    by (simp add: float_score_adapter_def answering_def)
  have e: "0 \<le> score sample_base" "score sample_base \<le> 100"
    by (simp_all add: sample_base_def)
  have f: "(if score_converts sample_base float_score_items \<and>
               reasons_convert float_score_adapter sample_base float_score_items
            then fieldwise float_score_adapter sample_base float_score_items
            else sample_base) =
     \<lparr>risk_level = PStr ''Safe'', score = 85, reasons = [PStr ''phish''],
      suspicious_links = []\<rparr>"
    unfolding float_score_items_def float_score_adapter_def sample_base_def by code_simp
  show ?thesis
    using refined_fields [OF a p b c d e] f by simp
qed

text \<open>
  Claim C4 as stated fails when the score is a non-numeric string: the level and the
  reasons the answer supplies are dropped with it, where the field-wise reading keeps
  them.
\<close>

theorem unusable_score_discards_fields:
  "call_llm_to_refine high_score_adapter ''Hello!!'' sample_base = Inr sample_base \<and>
   fieldwise high_score_adapter sample_base high_score_items =
     \<lparr>risk_level = PStr ''Dangerous'', score = 18, reasons = [PStr ''phish''],
      suspicious_links = []\<rparr> \<and>
   call_llm_to_refine high_score_adapter ''Hello!!'' sample_base \<noteq>
     Inr (fieldwise high_score_adapter sample_base high_score_items)"
  unfolding high_score_adapter_def high_score_items_def high_score_json_def sample_base_def
  by code_simp

text \<open>
  Claim C10, as the code has it. When the decoded object has the key \<open>risk_level\<close> and
  its conversions succeed (the score missing or accepted by \<open>int\<close>, a lone reason
  accepted by \<open>str\<close>), the value under \<open>risk_level\<close> is returned as it is, whatever
  it is and whatever the score; \<open>analyze_text\<close> hands the adapter's result on unchanged.
\<close>

theorem risk_level_verbatim:
  assumes "\<not> unavailable A"
    and "build_llm_prompt A text base = Inr p"
    and "generate_content A p = Inr out"
    and "find_json (str_strip out) = Some js"
    and "json_loads A js = Inr (PDict kv)"
    and "map_of kv ''risk_level'' = Some v"
    and "score_converts base kv" and "reasons_convert A base kv"
  shows "(\<exists>r. call_llm_to_refine A text base = Inr r \<and> risk_level r = v) \<and>
         analyze_text L A text = call_llm_to_refine A text (heuristics_analyze L text)"
proof -
  have att: "refine_attempt A p base = refined A base (PDict kv)"
    using assms(3-5) by (rule attempt_dict)
  obtain r where r: "refined A base (PDict kv) = Inr r"
    and l: "risk_level r = dict_get kv ''risk_level'' (risk_level base)"
    using refined_dict_converts [OF assms(7,8)] by force
  from l assms(6) have "risk_level r = v" by (simp add: dict_get_def)
  moreover from att r assms(1,2) have "call_llm_to_refine A text base = Inr r"
    by (simp add: call_returns)
  ultimately show ?thesis by (simp add: analyze_text_def)
qed

theorem risk_level_verbatim_witness:
  "(case analyze_text example_libs harmless_adapter example_text of
      Inl e \<Rightarrow> None
    | Inr r \<Rightarrow> Some (risk_level r, score r)) = Some (PStr ''Totally harmless'', 95)"
proof -
  let ?base = "heuristics_analyze example_libs example_text"
  have a: "\<not> unavailable harmless_adapter"
    by (simp add: harmless_adapter_def answering_available)
  obtain p where p: "build_llm_prompt harmless_adapter example_text ?base = Inr p"
    unfolding harmless_adapter_def using answering_prompt by blast
  have b: "generate_content harmless_adapter p = Inr harmless_json"
    by (simp add: harmless_adapter_def answering_def)
  have c: "find_json (str_strip harmless_json) = Some harmless_json"
    unfolding harmless_json_def by code_simp
  have d: "json_loads harmless_adapter harmless_json = Inr (PDict harmless_items)"
    by (simp add: harmless_adapter_def answering_def)
  have e: "map_of harmless_items ''risk_level'' = Some (PStr ''Totally harmless'')"
    by (simp add: harmless_items_def)
  have f: "score_converts ?base harmless_items"
    by (simp add: score_converts_def harmless_items_def dict_get_def)
  have g: "reasons_convert harmless_adapter ?base harmless_items"
    by (simp add: reasons_convert_def reasons_list_def harmless_items_def dict_get_def)
  have "refine_attempt harmless_adapter p ?base = refined harmless_adapter ?base (PDict harmless_items)"
    using b c d by (rule attempt_dict)
  moreover obtain rs where "refined harmless_adapter ?base (PDict harmless_items) =
      Inr \<lparr>risk_level = PStr ''Totally harmless'', score = 95, reasons = rs,
           suspicious_links = suspicious_links ?base\<rparr>"
    using g by (simp add: refined_def harmless_items_def dict_get_def Let_def reasons_list_def)
  ultimately have s: "\<exists>r. call_llm_to_refine harmless_adapter example_text ?base = Inr r \<and> score r = 95"
    using a p by (simp add: call_returns)
  from risk_level_verbatim [OF a p b c d e f g, of example_libs] s show ?thesis by auto
qed

text \<open>
  Claim C10 as stated fails when the object has the key \<open>risk_level\<close> and a score that
  does not convert: the level returned is the base's, not the adapter's.
\<close>

theorem risk_level_lost_with_null_score:
  "map_of null_score_items ''risk_level'' = Some (PStr ''Dangerous'') \<and>
   call_llm_to_refine null_score_adapter ''Hello!!'' sample_base = Inr sample_base \<and>
   risk_level sample_base = PStr ''Safe''"
  unfolding null_score_adapter_def null_score_items_def null_score_json_def sample_base_def
  by code_simp

end
